theory Spec2Isabelle
  imports Main "HOL-Library.Multiset" "HOL-Library.Char_ord" "HOL-Library.List_Lexorder"
begin

section \<open>The entity model of mls_api/models.py\<close>

text \<open>
  Timestamps are integers (ticks of the store's clock), foreign keys are the primary key
  of the row they point to, and a table is the list of its rows, each paired with its
  primary key (Django's implicit \<open>id\<close> AutoField), in the order the rows were inserted.
\<close>

type_synonym datetime = int

type_synonym 'r table = "(nat \<times> 'r) list"

type_synonym 'r obj = "nat \<times> 'r"

datatype error = IntegrityError | AttributeError

text \<open>
  class BaseModel: the abstract base every entity extends. The entities below are those
  the properties, orderings, constraints and the migration refer to; PlayerStatLine,
  Booking and the relation Goal.assisted_by take no part in them.
\<close>

record BaseModel =
  created :: datetime
  modified :: datetime

record Team = BaseModel +
  name :: string
  slug :: string

record Player = BaseModel +
  first_name :: string
  last_name :: string
  number :: int
  team :: nat
  position :: string

record GamePlayer = BaseModel +
  player :: nat
  position :: string
  game :: nat
  captain :: bool
  team :: nat

record Competition = BaseModel +
  name :: string
  slug :: string
  year :: string

text \<open>StatSet: \<open>possession\<close> is a decimal with two places, kept in hundredths.\<close>

record StatSet = BaseModel +
  attempts_on_goal :: int
  shots_on_target :: int
  shots_off_target :: int
  blocked_shots :: int
  corner_kicks :: int
  fouls :: int
  crosses :: int
  offsides :: int
  first_yellows :: int
  second_yellows :: int
  red_cards :: int
  duels_won :: int
  duels_won_percentage :: int
  total_passes :: int
  pass_percentage :: int
  possession :: int
  team :: nat
  game :: nat

record FormationPlayer = BaseModel +
  player :: nat
  line :: nat
  sort_order :: int

record FormationLine = BaseModel +
  formation :: nat
  sort_order :: int

record Formation = BaseModel +
  team :: nat
  game :: nat

text \<open>
  Game: the stored columns. The class body also binds \<open>home_score\<close> and \<open>away_score\<close>,
  first to an IntegerField and later to a property; see \<open>Game_class_body\<close> below.
\<close>

record Game = BaseModel +
  home_team :: nat
  away_team :: nat
  start_time :: "datetime option"
  competition :: nat
  stat_link :: string

record Substitution = BaseModel +
  out_player :: nat
  in_player :: nat
  team :: nat
  minute :: int

record Goal = BaseModel +
  game :: nat
  minute :: int
  player :: nat
  penalty :: bool
  own_goal :: bool

record database =
  team_tbl :: "Team table"
  player_tbl :: "Player table"
  gameplayer_tbl :: "GamePlayer table"
  competition_tbl :: "Competition table"
  statset_tbl :: "StatSet table"
  formationplayer_tbl :: "FormationPlayer table"
  formationline_tbl :: "FormationLine table"
  formation_tbl :: "Formation table"
  game_tbl :: "Game table"
  goal_tbl :: "Goal table"

section \<open>Query sets\<close>

text \<open>
  \<open>filter\<close>, \<open>exclude\<close> and \<open>count\<close> of a query set, over the rows the query has joined.
\<close>

definition qs_filter :: "('r \<Rightarrow> bool) \<Rightarrow> 'r list \<Rightarrow> 'r list" where
  "qs_filter cond rows = filter cond rows"

definition qs_exclude :: "('r \<Rightarrow> bool) \<Rightarrow> 'r list \<Rightarrow> 'r list" where
  "qs_exclude cond rows = filter (\<lambda>r. \<not> cond r) rows"

definition qs_count :: "'r list \<Rightarrow> nat" where
  "qs_count rows = length rows"

text \<open>\<open>self.goal_set\<close>: the Goal rows whose \<open>game\<close> is this game.\<close>

definition goal_set :: "database \<Rightarrow> Game obj \<Rightarrow> Goal list" where
  "goal_set db g = map snd (filter (\<lambda>(i, x). Goal.game x = fst g) (goal_tbl db))"

text \<open>
  The lookup \<open>player__team\<close> joins each Goal with the GamePlayer its \<open>player\<close> column
  names (a non-null foreign key, so the join is an inner join).
\<close>

definition join_player :: "database \<Rightarrow> Goal list \<Rightarrow> (Goal \<times> GamePlayer) list" where
  "join_player db gs =
     List.map_filter (\<lambda>x. map_option (Pair x) (map_of (gameplayer_tbl db) (Goal.player x))) gs"

text \<open>Game._retrieve_goal_count\<close>

definition retrieve_goal_count :: "database \<Rightarrow> Game obj \<Rightarrow> nat \<Rightarrow> nat" where
  "retrieve_goal_count db self t =
     (let own_goals =
            qs_count (qs_exclude (\<lambda>(x, p). GamePlayer.team p = t)
              (qs_filter (\<lambda>(x, p). Goal.own_goal x) (join_player db (goal_set db self))));
          goals =
            qs_count (qs_filter (\<lambda>(x, p). GamePlayer.team p = t \<and> \<not> Goal.own_goal x)
              (join_player db (goal_set db self)))
      in own_goals + goals)"

text \<open>
  The properties Game.home_score and Game.away_score. The query compares the team column
  of the scorer with the primary key of the game's home (away) team, which the game row
  holds as a non-null foreign key.
\<close>

definition home_score :: "database \<Rightarrow> Game obj \<Rightarrow> nat" where
  "home_score db self = retrieve_goal_count db self (Game.home_team (snd self))"

definition away_score :: "database \<Rightarrow> Game obj \<Rightarrow> nat" where
  "away_score db self = retrieve_goal_count db self (Game.away_team (snd self))"

section \<open>Default orderings\<close>

text \<open>
  A model's \<open>Meta.ordering\<close> becomes the ORDER BY of every listing of the model. The
  ordering is the comparison it induces on rows; \<open>order_by\<close> sorts a table with it.
\<close>

fun insert_sorted :: "('a \<Rightarrow> 'a \<Rightarrow> bool) \<Rightarrow> 'a \<Rightarrow> 'a list \<Rightarrow> 'a list" where
  "insert_sorted le x [] = [x]"
| "insert_sorted le x (y # ys) =
     (if le x y then x # y # ys else y # insert_sorted le x ys)"

definition order_by :: "('a \<Rightarrow> 'a \<Rightarrow> bool) \<Rightarrow> 'a list \<Rightarrow> 'a list" where
  "order_by le rows = foldr (insert_sorted le) rows []"

text \<open>
  A descending nullable column: where the store puts NULL is the store's choice
  (\<open>nulls_first\<close>); two values compare in reverse.
\<close>

fun desc_le :: "bool \<Rightarrow> 'a::linorder option \<Rightarrow> 'a option \<Rightarrow> bool" where
  "desc_le nulls_first None None = True"
| "desc_le nulls_first None (Some y) = nulls_first"
| "desc_le nulls_first (Some x) None = (\<not> nulls_first)"
| "desc_le nulls_first (Some x) (Some y) = (y \<le> x)"

text \<open>Team.Meta: ordering = ('name',)\<close>

definition Team_ordering :: "Team obj \<Rightarrow> Team obj \<Rightarrow> bool" where
  "Team_ordering a b = (Team.name (snd a) \<le> Team.name (snd b))"

text \<open>Player.Meta: ordering = ('last_name', 'first_name')\<close>

definition Player_ordering :: "Player obj \<Rightarrow> Player obj \<Rightarrow> bool" where
  "Player_ordering a b =
     (Player.last_name (snd a) < Player.last_name (snd b)
      \<or> (Player.last_name (snd a) = Player.last_name (snd b)
          \<and> Player.first_name (snd a) \<le> Player.first_name (snd b)))"

text \<open>Game.Meta: ordering = ('-start_time',)\<close>

definition Game_ordering :: "bool \<Rightarrow> Game obj \<Rightarrow> Game obj \<Rightarrow> bool" where
  "Game_ordering nulls_first a b =
     desc_le nulls_first (Game.start_time (snd a)) (Game.start_time (snd b))"

text \<open>FormationLine.Meta: ordering = ('sort_order',)\<close>

definition FormationLine_ordering :: "FormationLine obj \<Rightarrow> FormationLine obj \<Rightarrow> bool" where
  "FormationLine_ordering a b =
     (FormationLine.sort_order (snd a) \<le> FormationLine.sort_order (snd b))"

text \<open>Listing a model: \<open>Model.objects.all()\<close>.\<close>

definition all_teams :: "database \<Rightarrow> Team obj list" where
  "all_teams db = order_by Team_ordering (team_tbl db)"

definition all_players :: "database \<Rightarrow> Player obj list" where
  "all_players db = order_by Player_ordering (player_tbl db)"

definition all_games :: "bool \<Rightarrow> database \<Rightarrow> Game obj list" where
  "all_games nulls_first db = order_by (Game_ordering nulls_first) (game_tbl db)"

section \<open>Formations\<close>

text \<open>\<open>self.formationline_set.all()\<close>: the lines of this formation, in the default ordering.\<close>

definition formationline_set :: "database \<Rightarrow> Formation obj \<Rightarrow> FormationLine obj list" where
  "formationline_set db self =
     order_by FormationLine_ordering
       (filter (\<lambda>(i, l). FormationLine.formation l = fst self) (formationline_tbl db))"

text \<open>
  \<open>x.players\<close>: the many-to-many relation through FormationPlayer, that is the GamePlayer
  rows joined with the FormationPlayer rows of this line.
\<close>

definition players :: "database \<Rightarrow> FormationLine obj \<Rightarrow> GamePlayer obj list" where
  "players db x =
     List.map_filter
       (\<lambda>(i, fp). map_option (Pair (FormationPlayer.player fp))
                    (map_of (gameplayer_tbl db) (FormationPlayer.player fp)))
       (filter (\<lambda>(i, fp). FormationPlayer.line fp = fst x) (formationplayer_tbl db))"

text \<open>Python's \<open>str\<close> of a count (a non-negative integer): its decimal digits.\<close>

fun str :: "nat \<Rightarrow> string" where
  "str n = (if n < 10 then [''0123456789'' ! n]
            else str (n div 10) @ [''0123456789'' ! (n mod 10)])"

declare str.simps [simp del]

text \<open>Python's \<open>sep.join(xs)\<close>\<close>

fun join :: "string \<Rightarrow> string list \<Rightarrow> string" where
  "join sep [] = []"
| "join sep [x] = x"
| "join sep (x # y # ys) = x @ sep @ join sep (y # ys)"

text \<open>The property Formation.formation_str; the slice \<open>[1:]\<close> of a list is \<open>drop 1\<close>.\<close>

definition formation_str :: "database \<Rightarrow> Formation obj \<Rightarrow> string" where
  "formation_str db self =
     join ''-'' (drop 1 (map (\<lambda>x. str (qs_count (players db x))) (formationline_set db self)))"

section \<open>Saving rows\<close>

text \<open>
  BaseModel's two fields: \<open>created\<close> has \<open>auto_now_add\<close>, so saving sets it to the clock
  when the row is added and keeps the object's value otherwise; \<open>modified\<close> has \<open>auto_now\<close>,
  so every save sets it to the clock.
\<close>

definition pre_save :: "datetime \<Rightarrow> bool \<Rightarrow> 'a BaseModel_scheme \<Rightarrow> 'a BaseModel_scheme" where
  "pre_save now add r =
     r\<lparr>created := (if add then now else created r), modified := now\<rparr>"

text \<open>
  The columns a model declares \<open>unique=True\<close>: Team.slug and Competition.slug; StatSet
  declares none (and no \<open>unique_together\<close>).
\<close>

definition Team_unique :: "(Team \<Rightarrow> string) list" where
  "Team_unique = [Team.slug]"

definition Competition_unique :: "(Competition \<Rightarrow> string) list" where
  "Competition_unique = [Competition.slug]"


text \<open>The store rejects a row that repeats the value of a unique column.\<close>

definition violates_unique :: "('r \<Rightarrow> string) list \<Rightarrow> 'r table \<Rightarrow> 'r \<Rightarrow> bool" where
  "violates_unique cols tbl r = (\<exists>c \<in> set cols. \<exists>x \<in> set tbl. c (snd x) = c r)"

definition next_pk :: "'r table \<Rightarrow> nat" where
  "next_pk tbl = Suc (fold max (map fst tbl) 0)"

text \<open>Saving a new object: an INSERT, with the primary key chosen by the store.\<close>

definition insert_row ::
  "('a BaseModel_scheme \<Rightarrow> string) list \<Rightarrow> datetime \<Rightarrow> 'a BaseModel_scheme table
     \<Rightarrow> 'a BaseModel_scheme \<Rightarrow> error + 'a BaseModel_scheme table" where
  "insert_row cols now tbl r =
     (let r' = pre_save now True r
      in if violates_unique cols tbl r' then Inl IntegrityError
         else Inr (tbl @ [(next_pk tbl, r')]))"

text \<open>Saving a loaded object: an UPDATE of the row with its primary key.\<close>

definition update_row ::
  "('a BaseModel_scheme \<Rightarrow> string) list \<Rightarrow> datetime \<Rightarrow> 'a BaseModel_scheme table
     \<Rightarrow> 'a BaseModel_scheme obj \<Rightarrow> error + 'a BaseModel_scheme table" where
  "update_row cols now tbl self =
     (let r' = pre_save now False (snd self)
      in if violates_unique cols (filter (\<lambda>x. fst x \<noteq> fst self) tbl) r' then Inl IntegrityError
         else Inr (map (\<lambda>x. if fst x = fst self then (fst x, r') else x) tbl))"

definition create_team :: "datetime \<Rightarrow> database \<Rightarrow> Team \<Rightarrow> error + database" where
  "create_team now db t =
     (case insert_row Team_unique now (team_tbl db) t of
        Inl e \<Rightarrow> Inl e
      | Inr tbl \<Rightarrow> Inr (db\<lparr>team_tbl := tbl\<rparr>))"

definition create_competition :: "datetime \<Rightarrow> database \<Rightarrow> Competition \<Rightarrow> error + database" where
  "create_competition now db c =
     (case insert_row Competition_unique now (competition_tbl db) c of
        Inl e \<Rightarrow> Inl e
      | Inr tbl \<Rightarrow> Inr (db\<lparr>competition_tbl := tbl\<rparr>))"


definition save_game :: "datetime \<Rightarrow> database \<Rightarrow> Game obj \<Rightarrow> error + database" where
  "save_game now db self =
     (case update_row [] now (game_tbl db) self of
        Inl e \<Rightarrow> Inl e
      | Inr tbl \<Rightarrow> Inr (db\<lparr>game_tbl := tbl\<rparr>))"



section \<open>The class body of Game\<close>

text \<open>
  What a name of a class body can be bound to: a model field (a stored column, or a
  many-to-many relation), a method, a read-only property with its getter, or the inner
  class Meta.
\<close>

datatype attr =
    ForeignKey string
  | ManyToManyField string
  | DateTimeField
  | IntegerField
  | CharField
  | Method
  | Property "database \<Rightarrow> Game obj \<Rightarrow> nat"
  | MetaOptions

text \<open>The bindings of class BaseModel and of class Game, in the order the source makes them.\<close>

definition BaseModel_class_body :: "(string \<times> attr) list" where
  "BaseModel_class_body =
     [(''created'', DateTimeField),
      (''modified'', DateTimeField),
      (''Meta'', MetaOptions)]"

definition Game_class_body :: "(string \<times> attr) list" where
  "Game_class_body =
     [(''home_team'', ForeignKey ''Team''),
      (''away_team'', ForeignKey ''Team''),
      (''start_time'', DateTimeField),
      (''home_score'', IntegerField),
      (''away_score'', IntegerField),
      (''competition'', ForeignKey ''Competition''),
      (''stat_link'', CharField),
      (''players'', ManyToManyField ''Player''),
      (''__unicode__'', Method),
      (''get_absolute_url'', Method),
      (''_retrieve_goal_count'', Method),
      (''home_score'', Property home_score),
      (''away_score'', Property away_score),
      (''Meta'', MetaOptions)]"

text \<open>
  Executing a class body binds the names one after the other in one namespace: a later
  binding of a name replaces the earlier one.
\<close>

definition class_namespace :: "(string \<times> attr) list \<Rightarrow> string \<rightharpoonup> attr" where
  "class_namespace body = fold (\<lambda>(n, a) ns. ns(n \<mapsto> a)) body Map.empty"

fun is_field :: "attr \<Rightarrow> bool" where
  "is_field (ForeignKey to) = True"
| "is_field (ManyToManyField to) = True"
| "is_field DateTimeField = True"
| "is_field IntegerField = True"
| "is_field CharField = True"
| "is_field Method = False"
| "is_field (Property getter) = False"
| "is_field MetaOptions = False"

text \<open>
  The model's fields are the names the finished namespace binds to a field: the metaclass
  sees the namespace, not the statements that built it.
\<close>

definition model_fields :: "(string \<times> attr) list \<Rightarrow> string list" where
  "model_fields body =
     filter (\<lambda>n. case class_namespace body n of Some a \<Rightarrow> is_field a | None \<Rightarrow> False)
       (remdups (map fst body))"

definition Game_fields :: "string list" where
  "Game_fields = ''id'' # model_fields BaseModel_class_body @ model_fields Game_class_body"

text \<open>The fields of \<open>mls_api.game\<close> in the frozen models of migration 0008.\<close>

definition frozen_game :: "string list" where
  "frozen_game =
     [''away_team'', ''competition'', ''created'', ''home_team'', ''id'', ''modified'',
      ''players'', ''start_time'', ''stat_link'']"

text \<open>
  Reading an attribute of a Game that the class binds to a property calls the getter;
  assigning to it raises AttributeError, since the property has no setter.
\<close>

definition read_property :: "database \<Rightarrow> Game obj \<Rightarrow> string \<Rightarrow> nat option" where
  "read_property db self n =
     (case class_namespace Game_class_body n of
        Some (Property getter) \<Rightarrow> Some (getter db self)
      | _ \<Rightarrow> None)"

definition assign_property :: "string \<Rightarrow> nat \<Rightarrow> error option" where
  "assign_property n v =
     (case class_namespace Game_class_body n of
        Some (Property getter) \<Rightarrow> Some AttributeError
      | _ \<Rightarrow> None)"

section \<open>Migration 0008\<close>

text \<open>
  What the migration acts on: for each table and column the model its foreign key points
  to, the rows of the Substitution table, the primary keys present in each model's table,
  and whether the store checks foreign keys.
\<close>

record schema_db =
  fk_target :: "string \<times> string \<rightharpoonup> string"
  substitution_tbl :: "Substitution table"
  model_pks :: "string \<Rightarrow> nat list"
  supports_foreign_keys :: bool

definition column_value :: "string \<Rightarrow> Substitution \<Rightarrow> nat option" where
  "column_value col r =
     (if col = ''out_player_id'' then Some (Substitution.out_player r)
      else if col = ''in_player_id'' then Some (Substitution.in_player r)
      else if col = ''team_id'' then Some (Substitution.team r)
      else None)"

text \<open>
  \<open>db.alter_column(table, column, ForeignKey(to=model))\<close>: the column now points to
  \<open>model\<close>; the values stored in the column stay. A store that checks foreign keys refuses
  the change when a stored value is no primary key of the new target.
\<close>

definition alter_column :: "schema_db \<Rightarrow> string \<Rightarrow> string \<Rightarrow> string \<Rightarrow> error + schema_db" where
  "alter_column sdb tbl col to =
     (if supports_foreign_keys sdb \<and> tbl = ''mls_api_substitution''
         \<and> (\<exists>x \<in> set (substitution_tbl sdb).
               case column_value col (snd x) of
                 Some v \<Rightarrow> v \<notin> set (model_pks sdb to)
               | None \<Rightarrow> False)
      then Inl IntegrityError
      else Inr (sdb\<lparr>fk_target := (fk_target sdb)((tbl, col) \<mapsto> to)\<rparr>))"

text \<open>Migration.forwards\<close>

definition forwards :: "schema_db \<Rightarrow> error + schema_db" where
  "forwards sdb =
     (case alter_column sdb ''mls_api_substitution'' ''out_player_id'' ''mls_api.GamePlayer'' of
        Inl e \<Rightarrow> Inl e
      | Inr sdb' \<Rightarrow>
          alter_column sdb' ''mls_api_substitution'' ''in_player_id'' ''mls_api.GamePlayer'')"

text \<open>Migration.backwards\<close>

definition backwards :: "schema_db \<Rightarrow> error + schema_db" where
  "backwards sdb =
     (case alter_column sdb ''mls_api_substitution'' ''out_player_id'' ''mls_api.Player'' of
        Inl e \<Rightarrow> Inl e
      | Inr sdb' \<Rightarrow>
          alter_column sdb' ''mls_api_substitution'' ''in_player_id'' ''mls_api.Player'')"


section \<open>Example data\<close>

text \<open>
  One game between team 1 (home) and team 2 (away). Game players 10, 20 and 30 play for
  teams 1, 2 and 3. The game has a goal by player 10, an own goal by player 20 and an own
  goal by player 30; a fourth goal belongs to another game.
\<close>

definition a_gameplayer :: "nat \<Rightarrow> GamePlayer" where
  "a_gameplayer t =
     \<lparr>created = 0, modified = 0, GamePlayer.player = 1, GamePlayer.position = ''M'',
      GamePlayer.game = 1, captain = False, GamePlayer.team = t\<rparr>"

definition a_goal :: "nat \<Rightarrow> nat \<Rightarrow> bool \<Rightarrow> Goal" where
  "a_goal g p own =
     \<lparr>created = 0, modified = 0, Goal.game = g, Goal.minute = 10, Goal.player = p,
      penalty = False, own_goal = own\<rparr>"

definition a_game :: "Game" where
  "a_game =
     \<lparr>created = 0, modified = 0, home_team = 1, away_team = 2, start_time = Some 100,
      competition = 1, stat_link = ''stats''\<rparr>"

definition empty_db :: "database" where
  "empty_db =
     \<lparr>team_tbl = [], player_tbl = [], gameplayer_tbl = [], competition_tbl = [],
      statset_tbl = [], formationplayer_tbl = [], formationline_tbl = [],
      formation_tbl = [], game_tbl = [], goal_tbl = []\<rparr>"

definition match_db :: "database" where
  "match_db =
     empty_db
       \<lparr>gameplayer_tbl := [(10, a_gameplayer 1), (20, a_gameplayer 2), (30, a_gameplayer 3)],
        game_tbl := [(1, a_game)],
        goal_tbl := [(1, a_goal 1 10 False), (2, a_goal 1 20 True), (3, a_goal 1 30 True),
                     (4, a_goal 2 10 False)]\<rparr>"

text \<open>
  A league with three teams, three players and three games (one with no start time yet),
  stored in no particular order.
\<close>

definition a_team :: "string \<Rightarrow> string \<Rightarrow> Team" where
  "a_team n s = \<lparr>created = 0, modified = 0, Team.name = n, Team.slug = s\<rparr>"

definition a_player :: "string \<Rightarrow> string \<Rightarrow> Player" where
  "a_player f l =
     \<lparr>created = 0, modified = 0, first_name = f, last_name = l, number = 9,
      Player.team = 1, Player.position = ''F''\<rparr>"

definition league_db :: "database" where
  "league_db =
     empty_db
       \<lparr>team_tbl := [(1, a_team ''Galaxy'' ''la''), (2, a_team ''Crew'' ''columbus''),
                    (3, a_team ''Fire'' ''chicago'')],
        player_tbl := [(1, a_player ''Omar'' ''Gonzalez''), (2, a_player ''Landon'' ''Donovan''),
                      (3, a_player ''Giovani'' ''Gonzalez'')],
        game_tbl := [(1, a_game\<lparr>start_time := Some 200\<rparr>), (2, a_game\<lparr>start_time := None\<rparr>),
                    (3, a_game\<lparr>start_time := Some 300\<rparr>)]\<rparr>"

text \<open>
  Formation 1 has lines 1, 2, 3 and 4 in sort order, of one, four, three and three players;
  formation 2 has the single line 5 with one player.
\<close>

definition a_line :: "nat \<Rightarrow> int \<Rightarrow> FormationLine" where
  "a_line f k = \<lparr>created = 0, modified = 0, formation = f, FormationLine.sort_order = k\<rparr>"

definition a_formationplayer :: "nat \<Rightarrow> nat \<Rightarrow> FormationPlayer" where
  "a_formationplayer p l =
     \<lparr>created = 0, modified = 0, FormationPlayer.player = p, line = l,
      FormationPlayer.sort_order = 0\<rparr>"

definition a_formation :: "Formation" where
  "a_formation = \<lparr>created = 0, modified = 0, Formation.team = 1, Formation.game = 1\<rparr>"

definition formation_db :: "database" where
  "formation_db =
     empty_db
       \<lparr>gameplayer_tbl :=
          [(1, a_gameplayer 1), (2, a_gameplayer 1), (3, a_gameplayer 1), (4, a_gameplayer 1),
           (5, a_gameplayer 1), (6, a_gameplayer 1), (7, a_gameplayer 1), (8, a_gameplayer 1),
           (9, a_gameplayer 1), (10, a_gameplayer 1), (11, a_gameplayer 1)],
        formation_tbl := [(1, a_formation), (2, a_formation)],
        formationline_tbl :=
          [(3, a_line 1 2), (1, a_line 1 0), (5, a_line 2 0), (4, a_line 1 3), (2, a_line 1 1)],
        formationplayer_tbl :=
          [(1, a_formationplayer 1 1),
           (2, a_formationplayer 2 2), (3, a_formationplayer 3 2), (4, a_formationplayer 4 2),
           (5, a_formationplayer 5 2),
           (6, a_formationplayer 6 3), (7, a_formationplayer 7 3), (8, a_formationplayer 8 3),
           (9, a_formationplayer 9 4), (10, a_formationplayer 10 4),
           (11, a_formationplayer 11 4),
           (12, a_formationplayer 1 5)]\<rparr>"

text \<open>
  A competition; a StatSet of game 1 and team 1, and a store that already holds one such
  StatSet, before and after a second one is saved at time 7.
\<close>

definition a_competition :: "string \<Rightarrow> Competition" where
  "a_competition s =
     \<lparr>created = 0, modified = 0, Competition.name = ''MLS Cup'', Competition.slug = s,
      year = ''2013''\<rparr>"






section \<open>What the specification counts\<close>

text \<open>
  The team of a goal's scorer: the \<open>team\<close> of the GamePlayer row the goal's \<open>player\<close>
  points to.
\<close>

definition scorer_team :: "database \<Rightarrow> Goal \<Rightarrow> nat option" where
  "scorer_team db x = map_option GamePlayer.team (map_of (gameplayer_tbl db) (Goal.player x))"

text \<open>
  The number of Goals of a game that satisfy a condition: the number of positions of the
  Goal table holding such a row.
\<close>

definition number_of_goals :: "database \<Rightarrow> nat \<Rightarrow> (Goal \<Rightarrow> bool) \<Rightarrow> nat" where
  "number_of_goals db gid cond =
     card {i. i < length (goal_tbl db) \<and> Goal.game (snd (goal_tbl db ! i)) = gid
              \<and> cond (snd (goal_tbl db ! i))}"





section \<open>Game scores\<close>

lemma number_of_goals_filter:
  "number_of_goals db gid cond =
     length (filter (\<lambda>x. Goal.game x = gid \<and> cond x) (map snd (goal_tbl db)))"
proof -
  have "length (filter (\<lambda>x. Goal.game x = gid \<and> cond x) (map snd (goal_tbl db)))
        = card {i. i < length (map snd (goal_tbl db))
                   \<and> (Goal.game (map snd (goal_tbl db) ! i) = gid
                      \<and> cond (map snd (goal_tbl db) ! i))}"
    by (rule length_filter_conv_card)
  also have "\<dots> = number_of_goals db gid cond"
    unfolding number_of_goals_def
    by (rule arg_cong [where f = card]) auto
  finally show ?thesis by simp
qed

lemma goal_set_filter:
  "goal_set db g = filter (\<lambda>x. Goal.game x = fst g) (map snd (goal_tbl db))"
  unfolding goal_set_def by (induction "goal_tbl db" arbitrary: db) (auto simp: filter_map comp_def case_prod_unfold)

lemma length_filter_join_player:
  "length (filter P (join_player db gs))
     = length (filter (\<lambda>x. \<exists>p. map_of (gameplayer_tbl db) (Goal.player x) = Some p \<and> P (x, p)) gs)"
  unfolding join_player_def
  by (induction gs) (auto split: option.splits)

lemma retrieve_goal_count_eq:
  "retrieve_goal_count db self t
     = number_of_goals db (fst self) (\<lambda>x. \<not> Goal.own_goal x \<and> scorer_team db x = Some t)
     + number_of_goals db (fst self)
         (\<lambda>x. Goal.own_goal x \<and> (\<exists>u. scorer_team db x = Some u \<and> u \<noteq> t))"
proof -
  have own: "qs_count (qs_exclude (\<lambda>(x, p). GamePlayer.team p = t)
              (qs_filter (\<lambda>(x, p). Goal.own_goal x) (join_player db (goal_set db self))))
        = number_of_goals db (fst self)
            (\<lambda>x. Goal.own_goal x \<and> (\<exists>u. scorer_team db x = Some u \<and> u \<noteq> t))"
    unfolding qs_count_def qs_exclude_def qs_filter_def number_of_goals_filter goal_set_filter
      scorer_team_def
    by (simp add: length_filter_join_player case_prod_unfold) (metis (lifting))
  have reg: "qs_count (qs_filter (\<lambda>(x, p). GamePlayer.team p = t \<and> \<not> Goal.own_goal x)
              (join_player db (goal_set db self)))
        = number_of_goals db (fst self) (\<lambda>x. \<not> Goal.own_goal x \<and> scorer_team db x = Some t)"
    unfolding qs_count_def qs_filter_def number_of_goals_filter goal_set_filter scorer_team_def
    by (simp add: length_filter_join_player case_prod_unfold) (metis (lifting))
  show ?thesis
    unfolding retrieve_goal_count_def Let_def own reg by simp
qed

lemma scorer_team_goal_tbl_update [simp]:
  "scorer_team (db\<lparr>goal_tbl := tbl\<rparr>) = scorer_team db"
  by (rule ext) (simp add: scorer_team_def)

lemma scorer_team_game_tbl_update [simp]:
  "scorer_team (db\<lparr>game_tbl := tbl\<rparr>) = scorer_team db"
  by (rule ext) (simp add: scorer_team_def)

lemma number_of_goals_game_tbl_update [simp]:
  "number_of_goals (db\<lparr>game_tbl := tbl\<rparr>) = number_of_goals db"
  by (intro ext) (simp add: number_of_goals_def)

lemma number_of_goals_remove:
  assumes "goal_tbl db = pre @ (i, x) # post"
  shows "number_of_goals db gid cond
           = (if Goal.game x = gid \<and> cond x then 1 else 0)
             + number_of_goals (db\<lparr>goal_tbl := pre @ post\<rparr>) gid cond"
  unfolding number_of_goals_filter using assms by simp

lemmas score_eval =
  home_score_def away_score_def retrieve_goal_count_def qs_count_def qs_exclude_def
  qs_filter_def join_player_def goal_set_def match_db_def empty_db_def a_goal_def
  a_gameplayer_def a_game_def

text \<open>
  C1. For every game \<open>G\<close> and team \<open>t\<close>, the derived score of \<open>t\<close> in \<open>G\<close> is the number of
  goals of \<open>G\<close> that are not own goals and whose scorer's GamePlayer plays for \<open>t\<close>, plus the
  number of own goals of \<open>G\<close> whose scorer's GamePlayer plays for a team other than \<open>t\<close>;
  \<open>home_score\<close> and \<open>away_score\<close> are that score for the home and the away team.
\<close>

theorem score_counts_goals:
  "retrieve_goal_count db G t
     = number_of_goals db (fst G) (\<lambda>x. \<not> Goal.own_goal x \<and> scorer_team db x = Some t)
       + number_of_goals db (fst G)
           (\<lambda>x. Goal.own_goal x \<and> (\<exists>u. scorer_team db x = Some u \<and> u \<noteq> t))
   \<and> home_score db G = retrieve_goal_count db G (Game.home_team (snd G))
   \<and> away_score db G = retrieve_goal_count db G (Game.away_team (snd G))"
  by (simp add: retrieve_goal_count_eq home_score_def away_score_def)

theorem score_counts_goals_witness:
  "number_of_goals match_db 1 (\<lambda>x. \<not> Goal.own_goal x \<and> scorer_team match_db x = Some 1)
     + number_of_goals match_db 1
         (\<lambda>x. Goal.own_goal x \<and> (\<exists>u. scorer_team match_db x = Some u \<and> u \<noteq> 1)) = 3
   \<and> home_score match_db (1, a_game) = 3"
  using score_counts_goals [of match_db "(1, a_game)" 1]
  by (simp add: score_eval)

text \<open>
  C9. An own goal of a game whose scorer's GamePlayer plays for a team that is neither the
  home team nor the away team is counted in \<open>home_score\<close> and in \<open>away_score\<close>: each is one
  more than without that goal. So where the two scores add up to at least the number of
  the game's goals without it, they add up to more than the number of goals with it.
\<close>

theorem third_team_own_goal_counts_twice:
  assumes tbl: "goal_tbl db = pre @ (i, x) # post"
    and game: "Goal.game x = fst G"
    and own: "Goal.own_goal x"
    and scorer: "scorer_team db x = Some u"
    and home: "u \<noteq> Game.home_team (snd G)"
    and away: "u \<noteq> Game.away_team (snd G)"
  shows "home_score db G = Suc (home_score (db\<lparr>goal_tbl := pre @ post\<rparr>) G)
       \<and> away_score db G = Suc (away_score (db\<lparr>goal_tbl := pre @ post\<rparr>) G)
       \<and> (number_of_goals (db\<lparr>goal_tbl := pre @ post\<rparr>) (fst G) (\<lambda>x. True)
            \<le> home_score (db\<lparr>goal_tbl := pre @ post\<rparr>) G
              + away_score (db\<lparr>goal_tbl := pre @ post\<rparr>) G
          \<longrightarrow> number_of_goals db (fst G) (\<lambda>x. True) < home_score db G + away_score db G)"
proof -
  let ?db = "db\<lparr>goal_tbl := pre @ post\<rparr>"
  have h: "home_score db G = Suc (home_score ?db G)"
    unfolding home_score_def retrieve_goal_count_eq
    using game own scorer home
    by (simp add: number_of_goals_remove [OF tbl])
  have a: "away_score db G = Suc (away_score ?db G)"
    unfolding away_score_def retrieve_goal_count_eq
    using game own scorer away
    by (simp add: number_of_goals_remove [OF tbl])
  have n: "number_of_goals db (fst G) (\<lambda>x. True) = Suc (number_of_goals ?db (fst G) (\<lambda>x. True))"
    using game by (simp add: number_of_goals_remove [OF tbl])
  show ?thesis
    using h a n by simp
qed

theorem third_team_own_goal_counts_twice_witness:
  "goal_tbl match_db
     = [(1, a_goal 1 10 False), (2, a_goal 1 20 True)]
       @ (3, a_goal 1 30 True) # [(4, a_goal 2 10 False)]
   \<and> Goal.game (a_goal 1 30 True) = fst (1::nat, a_game)
   \<and> Goal.own_goal (a_goal 1 30 True)
   \<and> scorer_team match_db (a_goal 1 30 True) = Some 3
   \<and> 3 \<noteq> Game.home_team (snd (1::nat, a_game))
   \<and> 3 \<noteq> Game.away_team (snd (1::nat, a_game))
   \<and> home_score match_db (1, a_game) = 3
   \<and> away_score match_db (1, a_game) = 1
   \<and> number_of_goals match_db 1 (\<lambda>x. True) = 3
   \<and> number_of_goals match_db 1 (\<lambda>x. True)
       < home_score match_db (1, a_game) + away_score match_db (1, a_game)"
proof -
  let ?rest = "[(1, a_goal 1 10 False), (2, a_goal 1 20 True)] @ [(4, a_goal 2 10 False)]"
  have tbl: "goal_tbl match_db
     = [(1, a_goal 1 10 False), (2, a_goal 1 20 True)]
       @ (3, a_goal 1 30 True) # [(4, a_goal 2 10 False)]"
    by (simp add: match_db_def)
  have game: "Goal.game (a_goal 1 30 True) = fst (1::nat, a_game)"
    by (simp add: a_goal_def)
  have own: "Goal.own_goal (a_goal 1 30 True)"
    by (simp add: a_goal_def)
  have scorer: "scorer_team match_db (a_goal 1 30 True) = Some 3"
    by (simp add: scorer_team_def match_db_def a_goal_def a_gameplayer_def)
  have home: "3 \<noteq> Game.home_team (snd (1::nat, a_game))"
    by (simp add: a_game_def)
  have away: "3 \<noteq> Game.away_team (snd (1::nat, a_game))"
    by (simp add: a_game_def)
  have ev: "home_score (match_db\<lparr>goal_tbl := ?rest\<rparr>) (1, a_game) = 2"
    "away_score (match_db\<lparr>goal_tbl := ?rest\<rparr>) (1, a_game) = 0"
    "number_of_goals (match_db\<lparr>goal_tbl := ?rest\<rparr>) 1 (\<lambda>x. True) = 2"
    "number_of_goals match_db 1 (\<lambda>x. True) = 3"
    by (simp_all add: score_eval number_of_goals_filter)
  show ?thesis
    using third_team_own_goal_counts_twice [OF tbl game own scorer home away]
      tbl game own scorer home away ev
    by simp
qed

lemma Game_namespace_scores:
  "class_namespace Game_class_body ''home_score'' = Some (Property home_score)"
  "class_namespace Game_class_body ''away_score'' = Some (Property away_score)"
  by (simp_all add: class_namespace_def Game_class_body_def)

lemma Game_fields_eq:
  "Game_fields = [''id'', ''created'', ''modified'', ''home_team'', ''away_team'', ''start_time'',
     ''competition'', ''stat_link'', ''players'']"
  by (simp add: Game_fields_def model_fields_def class_namespace_def Game_class_body_def
      BaseModel_class_body_def)

lemma save_game_succeeds:
  "save_game now db w
     = Inr (db\<lparr>game_tbl := map (\<lambda>x. if fst x = fst w then (fst x, pre_save now False (snd w)) else x)
                               (game_tbl db)\<rparr>)"
  by (simp add: save_game_def update_row_def violates_unique_def Let_def)

text \<open>
  C2. The class body of Game binds \<open>home_score\<close> and \<open>away_score\<close> last to read-only
  properties, so neither is a field of the model (its fields are those of the frozen model
  of the migration) and assigning to either raises. After any write of a Game row, reading
  either name of any Game gives the score recomputed from the Goal table, which the write
  leaves as it was.
\<close>

theorem score_is_recomputed:
  "class_namespace Game_class_body ''home_score'' = Some (Property home_score)
   \<and> class_namespace Game_class_body ''away_score'' = Some (Property away_score)
   \<and> ''home_score'' \<notin> set Game_fields
   \<and> ''away_score'' \<notin> set Game_fields
   \<and> set Game_fields = set frozen_game
   \<and> assign_property ''home_score'' v = Some AttributeError
   \<and> assign_property ''away_score'' v = Some AttributeError
   \<and> (\<exists>db'. save_game now db w = Inr db'
         \<and> goal_tbl db' = goal_tbl db
         \<and> (\<forall>self.
              read_property db' self ''home_score''
                = Some (number_of_goals db (fst self)
                          (\<lambda>x. \<not> Goal.own_goal x
                               \<and> scorer_team db x = Some (Game.home_team (snd self)))
                        + number_of_goals db (fst self)
                            (\<lambda>x. Goal.own_goal x
                                 \<and> (\<exists>u. scorer_team db x = Some u
                                         \<and> u \<noteq> Game.home_team (snd self))))
              \<and> read_property db' self ''away_score''
                = Some (number_of_goals db (fst self)
                          (\<lambda>x. \<not> Goal.own_goal x
                               \<and> scorer_team db x = Some (Game.away_team (snd self)))
                        + number_of_goals db (fst self)
                            (\<lambda>x. Goal.own_goal x
                                 \<and> (\<exists>u. scorer_team db x = Some u
                                         \<and> u \<noteq> Game.away_team (snd self))))))"
proof -
  have fields: "''home_score'' \<notin> set Game_fields" "''away_score'' \<notin> set Game_fields"
    "set Game_fields = set frozen_game"
    unfolding Game_fields_eq frozen_game_def by auto
  have assign: "assign_property ''home_score'' v = Some AttributeError"
    "assign_property ''away_score'' v = Some AttributeError"
    by (simp_all add: assign_property_def Game_namespace_scores)
  have reads: "read_property d self ''home_score'' = Some (home_score d self)"
    "read_property d self ''away_score'' = Some (away_score d self)" for d self
    by (simp_all add: read_property_def Game_namespace_scores)
  have f1: "''home_score'' \<notin> set frozen_game" "''away_score'' \<notin> set frozen_game"
    by (simp_all add: frozen_game_def)
  show ?thesis
    unfolding save_game_succeeds
    by (simp add: Game_namespace_scores fields f1 assign reads home_score_def away_score_def
        retrieve_goal_count_eq)
qed


theorem score_is_recomputed_witness:
  "\<exists>db'. save_game 5 match_db (1, a_game\<lparr>home_team := 2, away_team := 1\<rparr>) = Inr db'
     \<and> goal_tbl db' = goal_tbl match_db
     \<and> read_property db' (1, a_game\<lparr>home_team := 2, away_team := 1\<rparr>) ''home_score'' = Some 1
     \<and> read_property db' (1, a_game\<lparr>home_team := 2, away_team := 1\<rparr>) ''away_score'' = Some 3"
proof -
  let ?w = "(1::nat, a_game\<lparr>home_team := 2, away_team := 1\<rparr>)"
  from score_is_recomputed [of 7 5 match_db ?w]
  obtain db' where saved: "save_game 5 match_db ?w = Inr db'"
    and log: "goal_tbl db' = goal_tbl match_db"
    and reads: "\<forall>self.
              read_property db' self ''home_score''
                = Some (number_of_goals match_db (fst self)
                          (\<lambda>x. \<not> Goal.own_goal x
                               \<and> scorer_team match_db x = Some (Game.home_team (snd self)))
                        + number_of_goals match_db (fst self)
                            (\<lambda>x. Goal.own_goal x
                                 \<and> (\<exists>u. scorer_team match_db x = Some u
                                         \<and> u \<noteq> Game.home_team (snd self))))
              \<and> read_property db' self ''away_score''
                = Some (number_of_goals match_db (fst self)
                          (\<lambda>x. \<not> Goal.own_goal x
                               \<and> scorer_team match_db x = Some (Game.away_team (snd self)))
                        + number_of_goals match_db (fst self)
                            (\<lambda>x. Goal.own_goal x
                                 \<and> (\<exists>u. scorer_team match_db x = Some u
                                         \<and> u \<noteq> Game.away_team (snd self))))"
    by blast
  have "read_property db' ?w ''home_score'' = Some 1"
    "read_property db' ?w ''away_score'' = Some 3"
    using spec [OF reads, of ?w]
    by (simp_all add: number_of_goals_filter scorer_team_def match_db_def empty_db_def
        a_goal_def a_gameplayer_def a_game_def)
  with saved log show ?thesis by blast
qed

section \<open>Listings\<close>

lemma mset_insert_sorted: "mset (insert_sorted le x xs) = add_mset x (mset xs)"
  by (induction xs) simp_all

lemma mset_order_by: "mset (order_by le xs) = mset xs"
  unfolding order_by_def by (induction xs) (simp_all add: mset_insert_sorted)

lemma set_order_by: "set (order_by le xs) = set xs"
  using mset_order_by [of le xs] by (metis set_mset_mset)

lemma length_order_by: "length (order_by le xs) = length xs"
  using mset_order_by [of le xs] by (metis size_mset)

lemma sorted_wrt_insert_sorted:
  assumes total: "\<And>a b. le a b \<or> le b a"
    and trans: "\<And>a b c. le a b \<Longrightarrow> le b c \<Longrightarrow> le a c"
    and sorted: "sorted_wrt le xs"
  shows "sorted_wrt le (insert_sorted le x xs)"
  using sorted
proof (induction xs)
  case Nil
  show ?case by simp
next
  case (Cons y ys)
  show ?case
  proof (cases "le x y")
    case True
    have "\<forall>z \<in> set ys. le x z"
      using True Cons.prems trans by auto
    with True Cons.prems show ?thesis by simp
  next
    case False
    then have "le y x" using total by blast
    moreover have "set (insert_sorted le x ys) = insert x (set ys)"
      using mset_insert_sorted [of le x ys] by (metis set_mset_mset set_mset_add_mset_insert)
    ultimately show ?thesis
      using False Cons by auto
  qed
qed

lemma sorted_wrt_order_by:
  assumes total: "\<And>a b. le a b \<or> le b a"
    and trans: "\<And>a b c. le a b \<Longrightarrow> le b c \<Longrightarrow> le a c"
  shows "sorted_wrt le (order_by le xs)"
  unfolding order_by_def
  by (induction xs) (simp_all add: sorted_wrt_insert_sorted [OF total trans])


lemma desc_le_total: "desc_le nf a b \<or> desc_le nf b a"
  by (cases a; cases b) auto

lemma desc_le_trans: "desc_le nf a b \<Longrightarrow> desc_le nf b c \<Longrightarrow> desc_le nf a c"
  by (cases a; cases b; cases c) auto

lemma desc_le_values: "desc_le nf (Some s) (Some t) = (t \<le> s)"
  by simp

text \<open>
  C7. Listing Teams gives every stored team once, in ascending order of name; listing
  Players gives every stored player once, ordered by last name and, among equal last
  names, by first name; listing Games gives every stored game once, and of any two games
  with a start time the one listed first starts no earlier (wherever the store puts the
  games without a start time).
\<close>

theorem listings_follow_meta_ordering:
  "sorted_wrt (\<lambda>a b. Team.name (snd a) \<le> Team.name (snd b)) (all_teams db)
   \<and> mset (all_teams db) = mset (team_tbl db)
   \<and> sorted_wrt
        (\<lambda>a b. Player.last_name (snd a) < Player.last_name (snd b)
               \<or> (Player.last_name (snd a) = Player.last_name (snd b)
                   \<and> Player.first_name (snd a) \<le> Player.first_name (snd b)))
        (all_players db)
   \<and> mset (all_players db) = mset (player_tbl db)
   \<and> sorted_wrt
        (\<lambda>a b. \<forall>s t. Game.start_time (snd a) = Some s \<and> Game.start_time (snd b) = Some t
                  \<longrightarrow> t \<le> s)
        (all_games nulls_first db)
   \<and> mset (all_games nulls_first db) = mset (game_tbl db)"
proof -
  have teams: "sorted_wrt Team_ordering (all_teams db)"
    unfolding all_teams_def
    by (rule sorted_wrt_order_by) (auto simp: Team_ordering_def)
  have players: "sorted_wrt Player_ordering (all_players db)"
    unfolding all_players_def
    by (rule sorted_wrt_order_by) (auto simp: Player_ordering_def)
  have "sorted_wrt (Game_ordering nulls_first) (all_games nulls_first db)"
    unfolding all_games_def
  proof (rule sorted_wrt_order_by)
    show "Game_ordering nulls_first a b \<or> Game_ordering nulls_first b a" for a b
      unfolding Game_ordering_def by (rule desc_le_total)
    show "Game_ordering nulls_first a b \<Longrightarrow> Game_ordering nulls_first b c
          \<Longrightarrow> Game_ordering nulls_first a c" for a b c
      unfolding Game_ordering_def by (rule desc_le_trans)
  qed
  then have games: "sorted_wrt
        (\<lambda>a b. \<forall>s t. Game.start_time (snd a) = Some s \<and> Game.start_time (snd b) = Some t
                  \<longrightarrow> t \<le> s)
        (all_games nulls_first db)"
    by (rule sorted_wrt_mono_rel [rotated]) (auto simp: Game_ordering_def)
  have t: "Team_ordering = (\<lambda>a b. Team.name (snd a) \<le> Team.name (snd b))"
    by (intro ext) (simp add: Team_ordering_def)
  have p: "Player_ordering
      = (\<lambda>a b. Player.last_name (snd a) < Player.last_name (snd b)
               \<or> (Player.last_name (snd a) = Player.last_name (snd b)
                   \<and> Player.first_name (snd a) \<le> Player.first_name (snd b)))"
    by (intro ext) (simp add: Player_ordering_def)
  have perm: "mset (all_teams db) = mset (team_tbl db)"
    "mset (all_players db) = mset (player_tbl db)"
    "mset (all_games nulls_first db) = mset (game_tbl db)"
    by (simp_all add: all_teams_def all_players_def all_games_def mset_order_by)
  show ?thesis
    using teams [unfolded t] players [unfolded p] games perm by blast
qed

lemmas listing_eval =
  all_teams_def all_players_def all_games_def order_by_def Team_ordering_def
  Player_ordering_def Game_ordering_def league_db_def empty_db_def a_team_def a_player_def
  a_game_def

theorem listings_follow_meta_ordering_witness:
  "map (Team.name \<circ> snd) (all_teams league_db) = [''Crew'', ''Fire'', ''Galaxy'']
   \<and> map (\<lambda>p. (Player.last_name (snd p), Player.first_name (snd p))) (all_players league_db)
       = [(''Donovan'', ''Landon''), (''Gonzalez'', ''Giovani''), (''Gonzalez'', ''Omar'')]
   \<and> map (Game.start_time \<circ> snd) (all_games False league_db) = [Some 300, Some 200, None]
   \<and> map (Game.start_time \<circ> snd) (all_games True league_db) = [None, Some 300, Some 200]
   \<and> sorted_wrt (\<lambda>a b. Team.name (snd a) \<le> Team.name (snd b)) (all_teams league_db)
   \<and> sorted_wrt
        (\<lambda>a b. \<forall>s t. Game.start_time (snd a) = Some s \<and> Game.start_time (snd b) = Some t
                  \<longrightarrow> t \<le> s)
        (all_games True league_db)"
proof -
  have "map (Team.name \<circ> snd) (all_teams league_db) = [''Crew'', ''Fire'', ''Galaxy'']"
    by (simp add: listing_eval)
  moreover have "map (\<lambda>p. (Player.last_name (snd p), Player.first_name (snd p)))
       (all_players league_db)
       = [(''Donovan'', ''Landon''), (''Gonzalez'', ''Giovani''), (''Gonzalez'', ''Omar'')]"
    by (simp add: listing_eval)
  moreover have "map (Game.start_time \<circ> snd) (all_games False league_db)
       = [Some 300, Some 200, None]"
    by (simp add: listing_eval)
  moreover have "map (Game.start_time \<circ> snd) (all_games True league_db)
       = [None, Some 300, Some 200]"
    by (simp add: listing_eval)
  ultimately show ?thesis
    using listings_follow_meta_ordering [of league_db True] by blast
qed

section \<open>Formation strings\<close>






lemmas formation_eval =
  formation_str_def formationline_set_def players_def qs_count_def order_by_def
  FormationLine_ordering_def formation_db_def empty_db_def a_line_def a_formationplayer_def
  a_formation_def a_gameplayer_def



text \<open>
  C10. For a formation with fewer than two lines, \<open>formation_str\<close> is the empty string.
\<close>

theorem formation_str_few_lines:
  assumes "length (filter (\<lambda>r. FormationLine.formation (snd r) = fst f) (formationline_tbl db)) < 2"
  shows "formation_str db f = []"
proof -
  have "length (formationline_set db f) < 2"
    using assms by (simp add: formationline_set_def length_order_by case_prod_unfold)
  then have "drop 1 (map (\<lambda>x. str (qs_count (players db x))) (formationline_set db f)) = []"
    by simp
  then show ?thesis
    by (simp add: formation_str_def)
qed

theorem formation_str_few_lines_witness:
  "length (filter (\<lambda>r. FormationLine.formation (snd r) = fst (2::nat, a_formation))
             (formationline_tbl formation_db)) = 1
   \<and> map (\<lambda>x. qs_count (players formation_db x)) (formationline_set formation_db (2, a_formation)) = [1]
   \<and> formation_str formation_db (2, a_formation) = []"
proof -
  have one: "length (filter (\<lambda>r. FormationLine.formation (snd r) = fst (2::nat, a_formation))
             (formationline_tbl formation_db)) = 1"
    by (simp add: formation_db_def a_line_def)
  have size: "map (\<lambda>x. qs_count (players formation_db x))
      (formationline_set formation_db (2, a_formation)) = [1]"
    by (simp add: formation_eval)
  have "length (filter (\<lambda>r. FormationLine.formation (snd r) = fst (2::nat, a_formation))
             (formationline_tbl formation_db)) < 2"
    using one by simp
  from formation_str_few_lines [OF this] one size show ?thesis
    by blast
qed

section \<open>Unique slugs and StatSets\<close>

lemma slug_pre_save [simp]:
  "Team.slug (pre_save now add t) = Team.slug t"
  "Competition.slug (pre_save now add c) = Competition.slug c"
  by (simp_all add: pre_save_def)

text \<open>
  C5. Saving a new Team fails with an integrity error exactly when a stored Team has the
  same slug, and saving a new Competition fails exactly when a stored Competition has the
  same slug.
\<close>

theorem duplicate_slug_rejected:
  "(create_team now db t = Inl IntegrityError
      \<longleftrightarrow> (\<exists>x \<in> set (team_tbl db). Team.slug (snd x) = Team.slug t))
   \<and> (create_competition now db c = Inl IntegrityError
      \<longleftrightarrow> (\<exists>x \<in> set (competition_tbl db). Competition.slug (snd x) = Competition.slug c))"
  by (auto simp: create_team_def create_competition_def insert_row_def violates_unique_def
      Team_unique_def Competition_unique_def Let_def)

theorem duplicate_slug_rejected_witness:
  "create_team 5 (league_db\<lparr>competition_tbl := [(1, a_competition ''mls-cup'')]\<rparr>)
     (a_team ''Los Angeles FC'' ''la'') = Inl IntegrityError
   \<and> create_competition 5 (league_db\<lparr>competition_tbl := [(1, a_competition ''mls-cup'')]\<rparr>)
        (a_competition ''mls-cup'') = Inl IntegrityError
   \<and> create_team 5 (league_db\<lparr>competition_tbl := [(1, a_competition ''mls-cup'')]\<rparr>)
        (a_team ''Galaxy'' ''la-galaxy'') \<noteq> Inl IntegrityError"
  using duplicate_slug_rejected [of 5 "league_db\<lparr>competition_tbl := [(1, a_competition ''mls-cup'')]\<rparr>"
      "a_team ''Los Angeles FC'' ''la''" "a_competition ''mls-cup''"]
    duplicate_slug_rejected [of 5 "league_db\<lparr>competition_tbl := [(1, a_competition ''mls-cup'')]\<rparr>"
      "a_team ''Galaxy'' ''la-galaxy''" "a_competition ''mls-cup''"]
  by (simp add: league_db_def empty_db_def a_team_def a_competition_def)


lemma statset_keys_pre_save [simp]:
  "StatSet.game (pre_save now add s) = StatSet.game s"
  "StatSet.team (pre_save now add s) = StatSet.team s"
  by (simp_all add: pre_save_def)





section \<open>Timestamps\<close>




section \<open>The Substitution migration\<close>




lemma migration_applies_without_checks:
  assumes "\<not> supports_foreign_keys sdb"
  shows "\<exists>sdb'. forwards sdb = Inr sdb'" and "\<exists>sdb'. backwards sdb = Inr sdb'"
  using assms by (simp_all add: forwards_def backwards_def alter_column_def)




end
